theory Spec2Isabelle
  imports Main
begin

section \<open>Orders, products and the order-confirmed receiver\<close>

text \<open>
  The repository is two Python modules on top of Django's object-relational layer:
  \<^verbatim>\<open>orders/models.py\<close> (the \<^verbatim>\<open>Order\<close> model and its \<^verbatim>\<open>save\<close>) and
  \<^verbatim>\<open>products/signals.py\<close> (the receiver of \<^verbatim>\<open>order_confirmed\<close>).

  Python objects are mutable and shared, so model instances live in an explicit store:
  an address (\<open>ref\<close>) names an instance, and every method takes the world and returns
  the world it leaves behind, together with either the value returned or the exception
  raised (\<open>Inl\<close>). The database tables are part of the same world, so that what an
  exception leaves in storage can be stated.
\<close>

type_synonym ref = nat

text \<open>The exceptions that the modelled operations raise.\<close>

datatype error =
    RelatedObjectDoesNotExist
  | DoesNotExist
  | ValueError
  | InvalidOperation
  | IntegrityError

subsection \<open>Data model\<close>

text \<open>
  Modelled from the spec: \<^verbatim>\<open>products/models.py\<close> (class \<^verbatim>\<open>Product\<close>) is not among
  the sources. The spec gives a Product a \<^verbatim>\<open>name\<close> (text), a \<^verbatim>\<open>price\<close> (decimal currency
  amount) and a \<^verbatim>\<open>quantity\<close> (integer stock count). Currency amounts are held in
  hundredths, the precision that \<^verbatim>\<open>Order.total_price\<close> declares (\<^verbatim>\<open>decimal_places=2\<close>):
  the price 9.99 is \<open>999\<close>. \<open>Product_pk\<close> is the primary key, \<open>None\<close> for an instance that
  was never saved.
\<close>

record product =
  Product_pk :: "nat option"
  Product_name :: string
  Product_price :: int
  Product_quantity :: int

text \<open>
  \<^verbatim>\<open>class Order(models.Model)\<close>. The foreign key \<^verbatim>\<open>product\<close> is two things on an
  instance: the column value \<^verbatim>\<open>product_id\<close> and the cached related instance, which
  the attribute \<^verbatim>\<open>product\<close> returns. \<^verbatim>\<open>total_price\<close> is nullable. A row of the table
  is an \<open>order\<close> with no cached instance.
\<close>

record order =
  Order_pk :: "nat option"
  Order_product_id :: "nat option"
  Order_product_cache :: "ref option"
  Order_quantity :: int
  Order_total_price :: "int option"
  Order_confirmed :: bool

text \<open>
  The world: the two tables with their primary-key sequences, the instances in memory,
  and the lines printed so far. \<open>objs_next\<close> is the next unused address for a Product
  instance.
\<close>

record world =
  products_table :: "nat \<rightharpoonup> product"
  products_seq :: nat
  orders_table :: "nat \<rightharpoonup> order"
  orders_seq :: nat
  product_objs :: "ref \<Rightarrow> product"
  objs_next :: ref
  order_objs :: "ref \<Rightarrow> order"
  stdout :: "string list"

subsection \<open>The object-relational layer\<close>

text \<open>
  Reading the attribute \<^verbatim>\<open>order.product\<close>: the cached instance if there is one;
  otherwise the row with primary key \<^verbatim>\<open>product_id\<close> is fetched into a new instance
  (whose key is that of the row), which is cached on the order. An unset reference and a missing row raise.
\<close>

definition Order_get_product :: "ref \<Rightarrow> world \<Rightarrow> (error + ref) \<times> world" where
  "Order_get_product self w =
     (case Order_product_cache (order_objs w self) of
        Some r \<Rightarrow> (Inr r, w)
      | None \<Rightarrow>
          (case Order_product_id (order_objs w self) of
             None \<Rightarrow> (Inl RelatedObjectDoesNotExist, w)
           | Some k \<Rightarrow>
               (case products_table w k of
                  None \<Rightarrow> (Inl DoesNotExist, w)
                | Some row \<Rightarrow>
                    let r = objs_next w in
                    (Inr r,
                     w\<lparr>product_objs := (product_objs w)(r := row\<lparr>Product_pk := Some k\<rparr>),
                       objs_next := Suc r,
                       order_objs := (order_objs w)
                         (self := (order_objs w self)\<lparr>Order_product_cache := Some r\<rparr>)\<rparr>))))"

text \<open>
  The declared column \<^verbatim>\<open>DecimalField(max_digits=10, decimal_places=2)\<close> holds at most
  ten digits, two of them fractional: in hundredths, a magnitude below \<open>10 ^ 10\<close>.
\<close>

definition fits_total_price :: "int option \<Rightarrow> bool" where
  "fits_total_price t = (case t of None \<Rightarrow> True | Some c \<Rightarrow> \<bar>c\<bar> < 10 ^ 10)"

text \<open>
  \<^verbatim>\<open>super().save()\<close> on an Order, which is \<^verbatim>\<open>models.Model.save\<close>:
  \<^item> a cached related instance that was never saved is refused (\<^verbatim>\<open>ValueError\<close>); a
    cached instance gives the order its \<^verbatim>\<open>product_id\<close> when that is still empty, and is
    dropped from the cache when its key differs from \<^verbatim>\<open>product_id\<close>;
  \<^item> the column values are prepared: a \<^verbatim>\<open>total_price\<close> with more than ten digits
    cannot be quantized (\<^verbatim>\<open>InvalidOperation\<close>);
  \<^item> the storage layer enforces the declared constraints: \<^verbatim>\<open>product_id\<close> is not null
    and references an existing Product (\<^verbatim>\<open>ForeignKey\<close>), \<^verbatim>\<open>quantity >= 0\<close>
    (\<^verbatim>\<open>PositiveIntegerField\<close>);
  \<^item> an instance with a primary key updates its row, or inserts it under that key; an
    instance without one is inserted under the next key of the sequence.
\<close>

definition prepare_related :: "ref \<Rightarrow> world \<Rightarrow> (error + unit) \<times> world" where
  "prepare_related self w =
     (let ord = order_objs w self in
      case Order_product_cache ord of
        None \<Rightarrow> (Inr (), w)
      | Some r \<Rightarrow>
          (case Product_pk (product_objs w r) of
             None \<Rightarrow> (Inl ValueError, w)
           | Some k \<Rightarrow>
               let ord1 = (if Order_product_id ord = None
                           then ord\<lparr>Order_product_id := Some k\<rparr> else ord);
                   ord2 = (if Order_product_id ord1 \<noteq> Some k
                           then ord1\<lparr>Order_product_cache := None\<rparr> else ord1)
               in (Inr (), w\<lparr>order_objs := (order_objs w)(self := ord2)\<rparr>)))"

definition Model_save_Order :: "ref \<Rightarrow> world \<Rightarrow> (error + unit) \<times> world" where
  "Model_save_Order self w =
     (case prepare_related self w of
        (Inl e, w1) \<Rightarrow> (Inl e, w1)
      | (Inr _, w1) \<Rightarrow>
          let ord = order_objs w1 self in
          if \<not> fits_total_price (Order_total_price ord) then (Inl InvalidOperation, w1)
          else
            (case Order_product_id ord of
               None \<Rightarrow> (Inl IntegrityError, w1)
             | Some k \<Rightarrow>
                 if Order_quantity ord < 0 \<or> products_table w1 k = None
                 then (Inl IntegrityError, w1)
                 else
                   (case Order_pk ord of
                      Some n \<Rightarrow>
                        (Inr (),
                         w1\<lparr>orders_table := (orders_table w1)
                              (n \<mapsto> ord\<lparr>Order_product_cache := None\<rparr>)\<rparr>)
                    | None \<Rightarrow>
                        let n = Suc (orders_seq w1) in
                        if orders_table w1 n \<noteq> None then (Inl IntegrityError, w1)
                        else
                          (Inr (),
                           w1\<lparr>orders_table := (orders_table w1)
                                (n \<mapsto> ord\<lparr>Order_pk := Some n, Order_product_cache := None\<rparr>),
                              orders_seq := n,
                              order_objs := (order_objs w1)
                                (self := ord\<lparr>Order_pk := Some n\<rparr>)\<rparr>))))"

text \<open>
  Modelled from the spec: \<^verbatim>\<open>Product.save\<close> belongs to \<^verbatim>\<open>products/models.py\<close>, which is
  not among the sources. The spec has the receiver "persist the Product" with no guard
  on the quantity stored, so the instance is written to its row as it is: under its
  primary key, or under the next key of the sequence when it has none.
\<close>

definition Product_save :: "ref \<Rightarrow> world \<Rightarrow> (error + unit) \<times> world" where
  "Product_save self w =
     (let p = product_objs w self in
      case Product_pk p of
        Some k \<Rightarrow> (Inr (), w\<lparr>products_table := (products_table w)(k \<mapsto> p)\<rparr>)
      | None \<Rightarrow>
          let k = Suc (products_seq w) in
          if products_table w k \<noteq> None then (Inl IntegrityError, w)
          else
            (Inr (),
             w\<lparr>products_table := (products_table w)(k \<mapsto> p\<lparr>Product_pk := Some k\<rparr>),
               products_seq := k,
               product_objs := (product_objs w)(self := p\<lparr>Product_pk := Some k\<rparr>)\<rparr>))"

subsection \<open>Formatting an integer, as an f-string does\<close>

fun show_nat :: "nat \<Rightarrow> string" where
  "show_nat n =
     (if n < 10 then [''0123456789'' ! n]
      else show_nat (n div 10) @ [''0123456789'' ! (n mod 10)])"

declare show_nat.simps [simp del]

definition show_int :: "int \<Rightarrow> string" where
  "show_int i = (if i < 0 then ''-'' @ show_nat (nat (- i)) else show_nat (nat i))"

subsection \<open>\<^verbatim>\<open>Order.save\<close>\<close>

text \<open>
  \<^verbatim>\<open>
  def save(self, *args, **kwargs):
      self.total_price = self.product.price * self.quantity
      super().save(*args, **kwargs)
  \<close>
  The call modelled is \<^verbatim>\<open>order.save()\<close>, with none of the optional arguments that
  \<^verbatim>\<open>Model.save\<close> takes: they are handed on unchanged.
\<close>

definition Order_save :: "ref \<Rightarrow> world \<Rightarrow> (error + unit) \<times> world" where
  "Order_save self w =
     (case Order_get_product self w of
        (Inl e, w1) \<Rightarrow> (Inl e, w1)
      | (Inr p, w1) \<Rightarrow>
          let ord = order_objs w1 self;
              w2 = w1\<lparr>order_objs := (order_objs w1)
                     (self := ord\<lparr>Order_total_price :=
                        Some (Product_price (product_objs w1 p) * Order_quantity ord)\<rparr>)\<rparr>
          in Model_save_Order self w2)"

text \<open>
  \<^verbatim>\<open>
  def __str__(self):
      return f"{self.quantity} x {self.product.name}"
  \<close>
\<close>

definition Order_str :: "ref \<Rightarrow> world \<Rightarrow> (error + string) \<times> world" where
  "Order_str self w =
     (case Order_get_product self w of
        (Inl e, w1) \<Rightarrow> (Inl e, w1)
      | (Inr p, w1) \<Rightarrow>
          (Inr (show_int (Order_quantity (order_objs w1 self)) @ '' x '' @
                Product_name (product_objs w1 p)), w1))"

subsection \<open>The receiver of \<^verbatim>\<open>order_confirmed\<close>\<close>

text \<open>
  \<^verbatim>\<open>
  @receiver(order_confirmed)
  def update_quantity_on_order_confirmation(sender, **kwargs):
      product = sender.product
      product.quantity -= sender.quantity
      product.save()
      print(f"Quantity updated for {product.name}. New quantity: {product.quantity}")
  \<close>
  One delivery of the notification is one call of the receiver with the Order as
  \<^verbatim>\<open>sender\<close>.
\<close>

definition update_quantity_on_order_confirmation :: "ref \<Rightarrow> world \<Rightarrow> (error + unit) \<times> world" where
  "update_quantity_on_order_confirmation sender w =
     (case Order_get_product sender w of
        (Inl e, w1) \<Rightarrow> (Inl e, w1)
      | (Inr product, w1) \<Rightarrow>
          let p = product_objs w1 product;
              w2 = w1\<lparr>product_objs := (product_objs w1)
                     (product := p\<lparr>Product_quantity :=
                        Product_quantity p - Order_quantity (order_objs w1 sender)\<rparr>)\<rparr>
          in
          (case Product_save product w2 of
             (Inl e, w3) \<Rightarrow> (Inl e, w3)
           | (Inr _, w3) \<Rightarrow>
               (Inr (),
                w3\<lparr>stdout := stdout w3 @
                   [''Quantity updated for '' @ Product_name (product_objs w3 product) @
                    ''. New quantity: '' @ show_int (Product_quantity (product_objs w3 product))]\<rparr>)))"

subsection \<open>What the claims speak of\<close>

text \<open>The assignment \<^verbatim>\<open>order.confirmed = b\<close>, which the confirming code performs.\<close>

definition set_confirmed :: "ref \<Rightarrow> bool \<Rightarrow> world \<Rightarrow> world" where
  "set_confirmed self b w =
     w\<lparr>order_objs := (order_objs w)(self := (order_objs w self)\<lparr>Order_confirmed := b\<rparr>)\<rparr>"

text \<open>
  An order refers to a missing Product when no row of the products table is the one it
  references: the reference is unset, the cached instance was never saved, or the key it
  would store has no row (the row was deleted, or never existed).
\<close>

definition product_missing :: "ref \<Rightarrow> world \<Rightarrow> bool" where
  "product_missing self w =
     (case Order_product_cache (order_objs w self) of
        None \<Rightarrow>
          (case Order_product_id (order_objs w self) of
             None \<Rightarrow> True
           | Some j \<Rightarrow> products_table w j = None)
      | Some r \<Rightarrow>
          (case Product_pk (product_objs w r) of
             None \<Rightarrow> True
           | Some k \<Rightarrow>
               (case Order_product_id (order_objs w self) of
                  None \<Rightarrow> products_table w k = None
                | Some j \<Rightarrow> products_table w j = None)))"

text \<open>The assignment \<^verbatim>\<open>product.price = v\<close>, a later change of a price.\<close>

definition set_price :: "ref \<Rightarrow> int \<Rightarrow> world \<Rightarrow> world" where
  "set_price r v w =
     w\<lparr>product_objs := (product_objs w)(r := (product_objs w r)\<lparr>Product_price := v\<rparr>)\<rparr>"

subsection \<open>The Widget scenario\<close>

text \<open>
  The spec's scenario: \<^verbatim>\<open>Product(name="Widget", price=9.99, quantity=100)\<close>, saved under
  key 1 and held in memory at address 0, and \<^verbatim>\<open>Order(product=Widget, quantity=3)\<close>, not
  yet saved, at address 0 of the orders. Around them: a second product, Gadget (key 2,
  address 1); an order for 150 Widgets that holds only the key of its product; an order
  for no Widget at all; and an order whose product, key 7, has no row.
\<close>

definition Widget :: product where
  "Widget = \<lparr>Product_pk = Some 1, Product_name = ''Widget'',
             Product_price = 999, Product_quantity = 100\<rparr>"

definition Gadget :: product where
  "Gadget = \<lparr>Product_pk = Some 2, Product_name = ''Gadget'',
             Product_price = 2500, Product_quantity = 10\<rparr>"

definition Widget_order :: order where
  "Widget_order = \<lparr>Order_pk = None, Order_product_id = Some 1, Order_product_cache = Some 0,
                   Order_quantity = 3, Order_total_price = None, Order_confirmed = False\<rparr>"

definition bulk_order :: order where
  "bulk_order = \<lparr>Order_pk = None, Order_product_id = Some 1, Order_product_cache = None,
                 Order_quantity = 150, Order_total_price = None, Order_confirmed = False\<rparr>"

definition empty_order :: order where
  "empty_order = \<lparr>Order_pk = None, Order_product_id = Some 1, Order_product_cache = Some 0,
                  Order_quantity = 0, Order_total_price = None, Order_confirmed = False\<rparr>"

definition orphan_order :: order where
  "orphan_order = \<lparr>Order_pk = None, Order_product_id = Some 7, Order_product_cache = None,
                   Order_quantity = 1, Order_total_price = None, Order_confirmed = False\<rparr>"

definition shop :: world where
  "shop = \<lparr>products_table = [1 \<mapsto> Widget, 2 \<mapsto> Gadget], products_seq = 2,
           orders_table = Map.empty, orders_seq = 0,
           product_objs = (\<lambda>_. Gadget)(0 := Widget), objs_next = 2,
           order_objs = (\<lambda>_. Widget_order)(1 := bulk_order, 2 := empty_order, 3 := orphan_order),
           stdout = []\<rparr>"

text \<open>
  The numeral that \<open>show_nat\<close> writes, read back: the value of a string of decimal
  digits.
\<close>

fun read_nat :: "string \<Rightarrow> nat" where
  "read_nat s = foldl (\<lambda>a c. 10 * a + (of_char c - 48)) 0 s"

section \<open>Facts about the object-relational layer\<close>

subsection \<open>Reading \<^verbatim>\<open>order.product\<close>\<close>

text \<open>
  Reading the attribute touches neither a table nor the output, and of the order only
  the cache of the related instance.
\<close>

lemma get_product_tables:
  "Order_get_product self w = (res, w1) \<Longrightarrow>
     products_table w1 = products_table w \<and> products_seq w1 = products_seq w \<and>
     orders_table w1 = orders_table w \<and> orders_seq w1 = orders_seq w \<and> stdout w1 = stdout w"
  by (auto simp: Order_get_product_def Let_def split: option.splits)

lemma get_product_fields:
  "Order_get_product self w = (res, w1) \<Longrightarrow>
     Order_pk (order_objs w1 s) = Order_pk (order_objs w s) \<and>
     Order_product_id (order_objs w1 s) = Order_product_id (order_objs w s) \<and>
     Order_quantity (order_objs w1 s) = Order_quantity (order_objs w s) \<and>
     Order_total_price (order_objs w1 s) = Order_total_price (order_objs w s) \<and>
     Order_confirmed (order_objs w1 s) = Order_confirmed (order_objs w s)"
  by (auto simp: Order_get_product_def Let_def split: option.splits if_splits)

lemma get_product_others:
  "Order_get_product self w = (res, w1) \<Longrightarrow> s \<noteq> self \<Longrightarrow> order_objs w1 s = order_objs w s"
  by (auto simp: Order_get_product_def Let_def split: option.splits)

lemma get_product_cache:
  "Order_get_product self w = (Inr p, w1) \<Longrightarrow> Order_product_cache (order_objs w1 self) = Some p"
  by (auto simp: Order_get_product_def Let_def split: option.splits)

lemma get_product_cache_kept:
  "Order_get_product self w = (res, w1) \<Longrightarrow>
     Order_product_cache (order_objs w1 self) = Order_product_cache (order_objs w self) \<or>
     Order_product_cache (order_objs w self) = None"
  by (auto simp: Order_get_product_def Let_def split: option.splits)

lemma get_product_failed:
  "Order_get_product self w = (Inl e, w1) \<Longrightarrow> w1 = w"
  by (auto simp: Order_get_product_def Let_def split: option.splits)

lemma get_product_instances:
  "Order_get_product self w = (Inr p, w1) \<Longrightarrow> q \<noteq> p \<Longrightarrow> product_objs w1 q = product_objs w q"
  by (auto simp: Order_get_product_def Let_def split: option.splits)

lemma get_product_again:
  "Order_get_product self w = (Inr p, w1) \<Longrightarrow> Order_get_product self w1 = (Inr p, w1)"
  by (auto simp: Order_get_product_def Let_def split: option.splits)

subsection \<open>\<^verbatim>\<open>Model.save\<close> on an Order\<close>

lemma save_unfold:
  assumes "Order_get_product self w = (Inr p, w1)"
  shows "Order_save self w =
     Model_save_Order self
       (w1\<lparr>order_objs := (order_objs w1)
          (self := (order_objs w1 self)\<lparr>Order_total_price :=
             Some (Product_price (product_objs w1 p) * Order_quantity (order_objs w1 self))\<rparr>)\<rparr>)"
  using assms by (simp add: Order_save_def Let_def)

lemma model_save_fields:
  assumes "Model_save_Order self w = (res, w')"
  shows "Order_total_price (order_objs w' self) = Order_total_price (order_objs w self) \<and>
         Order_quantity (order_objs w' self) = Order_quantity (order_objs w self) \<and>
         Order_confirmed (order_objs w' self) = Order_confirmed (order_objs w self) \<and>
         product_objs w' = product_objs w"
  using assms
  by (auto simp: Model_save_Order_def prepare_related_def Let_def
      split: option.splits if_splits)

lemma model_save_row:
  assumes "Model_save_Order self w = (Inr (), w')"
  shows "\<exists>n. Order_pk (order_objs w' self) = Some n \<and>
             orders_table w' n = Some ((order_objs w' self)\<lparr>Order_product_cache := None\<rparr>)"
  using assms
  by (auto simp: Model_save_Order_def prepare_related_def Let_def
      split: option.splits if_splits)

lemma model_save_accepts:
  assumes "Order_product_cache (order_objs w self) = Some p"
    and "Product_pk (product_objs w p) = Some k"
    and "Order_product_id (order_objs w self) = None \<or>
         Order_product_id (order_objs w self) = Some k"
    and "products_table w k \<noteq> None"
    and "0 \<le> Order_quantity (order_objs w self)"
    and "fits_total_price (Order_total_price (order_objs w self))"
    and "Order_pk (order_objs w self) = None \<longrightarrow> orders_table w (Suc (orders_seq w)) = None"
  shows "fst (Model_save_Order self w) = Inr ()"
  using assms
  by (auto simp: Model_save_Order_def prepare_related_def Let_def
      split: option.splits if_splits)

lemma save_returns:
  assumes product: "Order_get_product self w = (Inr p, w1)"
    and key: "Product_pk (product_objs w1 p) = Some k"
    and ref: "Order_product_id (order_objs w self) = None \<or>
              Order_product_id (order_objs w self) = Some k"
    and row: "products_table w k \<noteq> None"
    and qty: "0 \<le> Order_quantity (order_objs w self)"
    and fits: "\<bar>Product_price (product_objs w1 p) * Order_quantity (order_objs w self)\<bar> < 10 ^ 10"
    and slot: "Order_pk (order_objs w self) = None \<longrightarrow>
                 orders_table w (Suc (orders_seq w)) = None"
  shows "\<exists>w'. Order_save self w = (Inr (), w')"
proof -
  let ?w2 = "w1\<lparr>order_objs := (order_objs w1)
          (self := (order_objs w1 self)\<lparr>Order_total_price :=
             Some (Product_price (product_objs w1 p) * Order_quantity (order_objs w1 self))\<rparr>)\<rparr>"
  note f = get_product_fields [OF product, of self]
  note t = get_product_tables [OF product]
  have "fst (Model_save_Order self ?w2) = Inr ()"
    using get_product_cache [OF product] key ref row qty fits slot f t
    by (intro model_save_accepts [where p = p and k = k])
       (simp_all add: fits_total_price_def)
  then show ?thesis
    unfolding save_unfold [OF product]
    by (cases "Model_save_Order self ?w2") simp
qed

lemma save_storage_on_error:
  assumes "Order_save self w = (Inl e, w')"
  shows "orders_table w' = orders_table w \<and> orders_seq w' = orders_seq w \<and>
         products_table w' = products_table w \<and> products_seq w' = products_seq w"
  using assms
  by (auto simp: Order_save_def Order_get_product_def Model_save_Order_def prepare_related_def
      Let_def split: option.splits if_splits)

lemma save_rejects_negative_quantity:
  assumes "Order_get_product self w = (Inr p, w1)"
    and "Order_quantity (order_objs w self) < 0"
  shows "\<exists>e. fst (Order_save self w) = Inl e"
proof -
  have "Order_quantity (order_objs w1 self) < 0"
    using assms get_product_fields [OF assms(1), of self] by simp
  then show ?thesis
    unfolding save_unfold [OF assms(1)]
    by (auto simp: Model_save_Order_def prepare_related_def Let_def
        split: option.splits if_splits)
qed

subsection \<open>The receiver, case by case\<close>

text \<open>
  Once the product of the sender is known, the receiver does one of three things: it
  updates the row of a saved product, it inserts the row of a product never saved, or it
  fails because the key of the insertion is taken.
\<close>

lemma receiver_no_product:
  assumes "Order_get_product sender w = (Inl e, w1)"
  shows "update_quantity_on_order_confirmation sender w = (Inl e, w)"
  using assms get_product_failed [OF assms]
  by (simp add: update_quantity_on_order_confirmation_def)

lemma receiver_saved:
  assumes "Order_get_product sender w = (Inr p, w1)"
    and "Product_pk (product_objs w1 p) = Some k"
  shows "update_quantity_on_order_confirmation sender w =
     (Inr (),
      w1\<lparr>product_objs := (product_objs w1)
           (p := (product_objs w1 p)\<lparr>Product_quantity :=
              Product_quantity (product_objs w1 p) - Order_quantity (order_objs w1 sender)\<rparr>),
         products_table := (products_table w1)
           (k \<mapsto> (product_objs w1 p)\<lparr>Product_quantity :=
              Product_quantity (product_objs w1 p) - Order_quantity (order_objs w1 sender)\<rparr>),
         stdout := stdout w1 @
           [''Quantity updated for '' @ Product_name (product_objs w1 p) @
            ''. New quantity: '' @
            show_int (Product_quantity (product_objs w1 p) - Order_quantity (order_objs w1 sender))]\<rparr>)"
  using assms
  by (simp add: update_quantity_on_order_confirmation_def Product_save_def Let_def)

lemma receiver_unsaved:
  assumes "Order_get_product sender w = (Inr p, w1)"
    and "Product_pk (product_objs w1 p) = None"
    and "products_table w1 (Suc (products_seq w1)) = None"
  shows "update_quantity_on_order_confirmation sender w =
     (Inr (),
      w1\<lparr>product_objs := (product_objs w1)
           (p := (product_objs w1 p)\<lparr>Product_quantity :=
              Product_quantity (product_objs w1 p) - Order_quantity (order_objs w1 sender),
              Product_pk := Some (Suc (products_seq w1))\<rparr>),
         products_table := (products_table w1)
           (Suc (products_seq w1) \<mapsto> (product_objs w1 p)\<lparr>Product_quantity :=
              Product_quantity (product_objs w1 p) - Order_quantity (order_objs w1 sender),
              Product_pk := Some (Suc (products_seq w1))\<rparr>),
         products_seq := Suc (products_seq w1),
         stdout := stdout w1 @
           [''Quantity updated for '' @ Product_name (product_objs w1 p) @
            ''. New quantity: '' @
            show_int (Product_quantity (product_objs w1 p) - Order_quantity (order_objs w1 sender))]\<rparr>)"
  using assms
  by (simp add: update_quantity_on_order_confirmation_def Product_save_def Let_def)

lemma receiver_collision:
  assumes "Order_get_product sender w = (Inr p, w1)"
    and "Product_pk (product_objs w1 p) = None"
    and "products_table w1 (Suc (products_seq w1)) = Some row"
  shows "update_quantity_on_order_confirmation sender w =
     (Inl IntegrityError,
      w1\<lparr>product_objs := (product_objs w1)
           (p := (product_objs w1 p)\<lparr>Product_quantity :=
              Product_quantity (product_objs w1 p) - Order_quantity (order_objs w1 sender)\<rparr>)\<rparr>)"
  using assms
  by (simp add: update_quantity_on_order_confirmation_def Product_save_def Let_def)

lemma receiver_returns:
  assumes "Order_get_product sender w = (Inr p, w1)"
    and "Product_pk (product_objs w1 p) = None \<longrightarrow>
           products_table w (Suc (products_seq w)) = None"
  shows "\<exists>w'. update_quantity_on_order_confirmation sender w = (Inr (), w')"
proof (cases "Product_pk (product_objs w1 p)")
  case (Some k)
  show ?thesis
    unfolding receiver_saved [OF assms(1) Some] by simp
next
  case None
  with assms(2) have "products_table w1 (Suc (products_seq w1)) = None"
    using get_product_tables [OF assms(1)] by simp
  from receiver_unsaved [OF assms(1) None this] show ?thesis
    by simp
qed

lemma receiver_delivered:
  assumes "Order_get_product sender w = (Inr p, w1)"
    and "update_quantity_on_order_confirmation sender w = (Inr (), w')"
  shows "\<exists>k. (Product_pk (product_objs w1 p) = Some k \<or> Product_pk (product_objs w1 p) = None) \<and>
     product_objs w' = (product_objs w1)
       (p := (product_objs w1 p)\<lparr>Product_quantity :=
          Product_quantity (product_objs w1 p) - Order_quantity (order_objs w1 sender),
          Product_pk := Some k\<rparr>) \<and>
     products_table w' = (products_table w1)
       (k \<mapsto> (product_objs w1 p)\<lparr>Product_quantity :=
          Product_quantity (product_objs w1 p) - Order_quantity (order_objs w1 sender),
          Product_pk := Some k\<rparr>) \<and>
     order_objs w' = order_objs w1 \<and> orders_table w' = orders_table w1 \<and>
     orders_seq w' = orders_seq w1 \<and>
     stdout w' = stdout w1 @
       [''Quantity updated for '' @ Product_name (product_objs w1 p) @
        ''. New quantity: '' @
        show_int (Product_quantity (product_objs w1 p) - Order_quantity (order_objs w1 sender))]"
proof (cases "Product_pk (product_objs w1 p)")
  case (Some k)
  have "(product_objs w1 p)\<lparr>Product_pk := Some k\<rparr> = product_objs w1 p"
    using Some by (cases "product_objs w1 p") simp
  then show ?thesis
    using assms(2) receiver_saved [OF assms(1) Some] Some
    by (intro exI [of _ k]) auto
next
  case None
  show ?thesis
  proof (cases "products_table w1 (Suc (products_seq w1))")
    case (Some row)
    then show ?thesis
      using assms(2) receiver_collision [OF assms(1) None Some] by simp
  next
    case free: None
    show ?thesis
      using assms(2) receiver_unsaved [OF assms(1) None free] None
      by (intro exI [of _ "Suc (products_seq w1)"]) auto
  qed
qed

lemma receiver_orders:
  assumes "Order_get_product sender w = (r, w1)"
    and "update_quantity_on_order_confirmation sender w = (res, w')"
  shows "order_objs w' = order_objs w1 \<and> orders_table w' = orders_table w \<and>
         orders_seq w' = orders_seq w"
  using assms get_product_tables [OF assms(1)]
  by (auto simp: update_quantity_on_order_confirmation_def Product_save_def Let_def
      split: sum.splits option.splits if_splits)

lemma confirmed_after_cache:
  "(ord\<lparr>Order_product_cache := c\<rparr>)\<lparr>Order_confirmed := b\<rparr> =
   (ord\<lparr>Order_confirmed := b\<rparr>)\<lparr>Order_product_cache := c\<rparr>"
  by (cases ord) simp

subsection \<open>Decimal numerals\<close>

lemma digit_value:
  assumes "(d::nat) < 10"
  shows "of_char (''0123456789'' ! d) - 48 = d"
proof -
  from assms have "d = 0 \<or> d = 1 \<or> d = 2 \<or> d = 3 \<or> d = 4 \<or> d = 5 \<or> d = 6 \<or> d = 7 \<or>
      d = 8 \<or> d = 9"
    by arith
  then show ?thesis
    by (elim disjE) simp_all
qed

lemma read_show_nat: "read_nat (show_nat n) = n"
proof (induction n rule: show_nat.induct)
  case (1 n)
  show ?case
  proof (cases "n < 10")
    case True
    then show ?thesis
      by (simp add: show_nat.simps [of n] digit_value)
  next
    case False
    with 1 have "read_nat (show_nat (n div 10)) = n div 10" by simp
    with False show ?thesis
      by (simp add: show_nat.simps [of n] digit_value)
  qed
qed

subsection \<open>Unfolding the scenario\<close>

lemmas scenario = shop_def Widget_def Gadget_def Widget_order_def bulk_order_def empty_order_def
  orphan_order_def

lemmas recv = update_quantity_on_order_confirmation_def Order_get_product_def Product_save_def
  Let_def

section \<open>The claims\<close>

subsection \<open>C1: every save recomputes the total price\<close>

text \<open>
  Claim C1. For an Order whose product can be read (\<open>p\<close>, in the world \<open>w1\<close> that the
  read leaves), \<^verbatim>\<open>save\<close> overwrites \<^verbatim>\<open>total_price\<close> with the price of that product times
  the quantity of the order, whatever \<^verbatim>\<open>total_price\<close>, \<^verbatim>\<open>confirmed\<close> and the rest of the
  world were before, and whether or not the storage layer then accepts the row. The
  save changes neither the price nor the quantity, so the equation holds of the values
  after the save. When the save returns, the stored row carries the same total; it
  returns whenever the product has a row, the quantity is not negative and the total
  has at most ten digits (\<open>save_returns\<close>). Amounts are in hundredths: 9.99 times 3 is
  2997, that is 29.97.
\<close>

theorem save_sets_total_price:
  assumes product: "Order_get_product self w = (Inr p, w1)"
    and saved: "Order_save self w = (res, w')"
  shows "Order_total_price (order_objs w' self) =
           Some (Product_price (product_objs w1 p) * Order_quantity (order_objs w self)) \<and>
         Product_price (product_objs w' p) = Product_price (product_objs w1 p) \<and>
         Order_quantity (order_objs w' self) = Order_quantity (order_objs w self) \<and>
         (res = Inr () \<longrightarrow>
            (\<exists>n row. Order_pk (order_objs w' self) = Some n \<and>
               orders_table w' n = Some row \<and>
               Order_quantity row = Order_quantity (order_objs w self) \<and>
               Order_total_price row =
                 Some (Product_price (product_objs w1 p) * Order_quantity (order_objs w self))))"
proof -
  let ?w2 = "w1\<lparr>order_objs := (order_objs w1)
          (self := (order_objs w1 self)\<lparr>Order_total_price :=
             Some (Product_price (product_objs w1 p) * Order_quantity (order_objs w1 self))\<rparr>)\<rparr>"
  have run: "Model_save_Order self ?w2 = (res, w')"
    using saved save_unfold [OF product] by simp
  have qty: "Order_quantity (order_objs w1 self) = Order_quantity (order_objs w self)"
    using get_product_fields [OF product] by simp
  have kept: "Order_total_price (order_objs w' self) =
                Some (Product_price (product_objs w1 p) * Order_quantity (order_objs w self))"
      "Order_quantity (order_objs w' self) = Order_quantity (order_objs w self)"
      "product_objs w' = product_objs w1"
    using model_save_fields [OF run] by (simp_all add: qty)
  have "\<exists>n row. Order_pk (order_objs w' self) = Some n \<and>
               orders_table w' n = Some row \<and>
               Order_quantity row = Order_quantity (order_objs w self) \<and>
               Order_total_price row =
                 Some (Product_price (product_objs w1 p) * Order_quantity (order_objs w self))"
    if "res = Inr ()"
  proof -
    from that run model_save_row obtain n where
      "Order_pk (order_objs w' self) = Some n"
      "orders_table w' n = Some ((order_objs w' self)\<lparr>Order_product_cache := None\<rparr>)"
      by blast
    then show ?thesis by (simp add: kept)
  qed
  then show ?thesis by (simp add: kept)
qed

text \<open>
  The scenario: the Widget order is saved with a total of 29.97; the price then rises to
  10.99, the order is marked confirmed and saved again, and its total is 32.97.
\<close>

theorem save_sets_total_price_witness:
  "Order_save 0 shop = (Inr (), snd (Order_save 0 shop)) \<and>
   Order_total_price (order_objs (snd (Order_save 0 shop)) 0) = Some 2997 \<and>
   (\<exists>n row. orders_table (snd (Order_save 0 shop)) n = Some row \<and>
      Order_total_price row = Some 2997) \<and>
   Order_total_price (order_objs
     (snd (Order_save 0 (set_confirmed 0 True (set_price 0 1099 (snd (Order_save 0 shop)))))) 0) =
     Some 3297"
proof -
  let ?w' = "snd (Order_save 0 shop)"
  let ?v = "set_confirmed 0 True (set_price 0 1099 ?w')"
  have product: "Order_get_product 0 shop = (Inr 0, shop)"
    by (simp add: Order_get_product_def scenario)
  have ok: "fst (Order_save 0 shop) = Inr ()"
    by (simp add: Order_save_def Order_get_product_def Model_save_Order_def prepare_related_def
        fits_total_price_def Let_def scenario)
  have saved: "Order_save 0 shop = (Inr (), ?w')"
    using ok by (cases "Order_save 0 shop") simp
  have price: "Product_price (product_objs shop 0) * Order_quantity (order_objs shop 0) = 2997"
    by (simp add: scenario)
  note first = save_sets_total_price [OF product saved, unfolded price]
  have cached: "Order_product_cache (order_objs ?w' 0) = Some 0"
    by (simp add: Order_save_def Order_get_product_def Model_save_Order_def prepare_related_def
        fits_total_price_def Let_def scenario)
  then have again: "Order_get_product 0 ?v = (Inr 0, ?v)"
    by (simp add: Order_get_product_def set_confirmed_def set_price_def)
  have resaved: "Order_save 0 ?v = (fst (Order_save 0 ?v), snd (Order_save 0 ?v))"
    by simp
  have "Product_price (product_objs ?v 0) * Order_quantity (order_objs ?v 0) = 1099 * 3"
    using first by (simp add: set_confirmed_def set_price_def scenario)
  then have price': "Product_price (product_objs ?v 0) * Order_quantity (order_objs ?v 0) = 3297"
    by simp
  note second = save_sets_total_price [OF again resaved, unfolded price']
  show ?thesis
    using saved first second by blast
qed

subsection \<open>C2: one notification, one decrement\<close>

text \<open>
  Claim C2. One delivery of the order-confirmed notification, for an Order whose Product
  \<open>p\<close> can be read, returns and has reduced the quantity of \<open>p\<close> by exactly the quantity
  of the Order, left its name and price alone, and stored the instance as its row. No
  row under another key and no other Product instance has changed. (The second
  hypothesis concerns a Product never saved, which the receiver then inserts: the key
  of the insertion must be free.)
\<close>

theorem confirmation_decrements_once:
  assumes product: "Order_get_product sender w = (Inr p, w1)"
    and slot: "Product_pk (product_objs w1 p) = None \<longrightarrow>
                 products_table w (Suc (products_seq w)) = None"
  shows "\<exists>w'. update_quantity_on_order_confirmation sender w = (Inr (), w') \<and>
         Product_quantity (product_objs w' p) =
           Product_quantity (product_objs w1 p) - Order_quantity (order_objs w sender) \<and>
         Product_name (product_objs w' p) = Product_name (product_objs w1 p) \<and>
         Product_price (product_objs w' p) = Product_price (product_objs w1 p) \<and>
         (\<exists>k. Product_pk (product_objs w' p) = Some k \<and>
              products_table w' k = Some (product_objs w' p)) \<and>
         (\<forall>k. Product_pk (product_objs w' p) \<noteq> Some k \<longrightarrow>
              products_table w' k = products_table w k) \<and>
         (\<forall>q. q \<noteq> p \<longrightarrow> product_objs w' q = product_objs w q)"
proof -
  from receiver_returns [OF product slot] obtain w' where
    delivered: "update_quantity_on_order_confirmation sender w = (Inr (), w')"
    by blast
  from receiver_delivered [OF product delivered] obtain k where
    objs: "product_objs w' = (product_objs w1)
       (p := (product_objs w1 p)\<lparr>Product_quantity :=
          Product_quantity (product_objs w1 p) - Order_quantity (order_objs w1 sender),
          Product_pk := Some k\<rparr>)"
    and rows: "products_table w' = (products_table w1)
       (k \<mapsto> (product_objs w1 p)\<lparr>Product_quantity :=
          Product_quantity (product_objs w1 p) - Order_quantity (order_objs w1 sender),
          Product_pk := Some k\<rparr>)"
    by blast
  have qty: "Order_quantity (order_objs w1 sender) = Order_quantity (order_objs w sender)"
    using get_product_fields [OF product] by simp
  have tab: "products_table w1 = products_table w"
    using get_product_tables [OF product] by simp
  show ?thesis
    using get_product_instances [OF product]
    by (intro exI [of _ w']) (simp add: delivered objs rows qty tab)
qed

theorem confirmation_decrements_once_witness:
  "Order_get_product 0 shop = (Inr 0, shop) \<and>
   fst (update_quantity_on_order_confirmation 0 shop) = Inr () \<and>
   Product_quantity (product_objs (snd (update_quantity_on_order_confirmation 0 shop)) 0) = 97 \<and>
   products_table (snd (update_quantity_on_order_confirmation 0 shop)) 1 =
     Some (Widget\<lparr>Product_quantity := 97\<rparr>) \<and>
   products_table (snd (update_quantity_on_order_confirmation 0 shop)) 2 = Some Gadget"
proof -
  have product: "Order_get_product 0 shop = (Inr 0, shop)"
    by (simp add: Order_get_product_def scenario)
  have slot: "Product_pk (product_objs shop 0) = None \<longrightarrow>
      products_table shop (Suc (products_seq shop)) = None"
    by (simp add: scenario)
  from confirmation_decrements_once [OF product slot] obtain w' where
    delivered: "update_quantity_on_order_confirmation 0 shop = (Inr (), w')"
    and qty': "Product_quantity (product_objs w' 0) =
      Product_quantity (product_objs shop 0) - Order_quantity (order_objs shop 0)"
    and name': "Product_name (product_objs w' 0) = Product_name (product_objs shop 0)"
    and price': "Product_price (product_objs w' 0) = Product_price (product_objs shop 0)"
    and stored: "\<exists>k. Product_pk (product_objs w' 0) = Some k \<and>
      products_table w' k = Some (product_objs w' 0)"
    and others: "\<forall>k. Product_pk (product_objs w' 0) \<noteq> Some k \<longrightarrow>
      products_table w' k = products_table shop k"
    by blast
  have qty: "Product_quantity (product_objs w' 0) = 97"
    and name: "Product_name (product_objs w' 0) = ''Widget''"
    and price: "Product_price (product_objs w' 0) = 999"
    using qty' name' price' by (simp_all add: scenario)
  have "snd (update_quantity_on_order_confirmation 0 shop) = w'"
    by (simp add: delivered)
  moreover have "Product_pk (product_objs (snd (update_quantity_on_order_confirmation 0 shop)) 0) =
      Some 1"
    by (simp add: recv scenario)
  ultimately have key: "Product_pk (product_objs w' 0) = Some 1"
    by simp
  have whole: "product_objs w' 0 = Widget\<lparr>Product_quantity := 97\<rparr>"
    using qty name price key by (cases "product_objs w' 0") (simp add: Widget_def)
  have row: "products_table w' 1 = Some (Widget\<lparr>Product_quantity := 97\<rparr>)"
    using stored key whole by auto
  have "products_table w' 2 = products_table shop 2"
    using others key by simp
  then have other: "products_table w' 2 = Some Gadget"
    by (simp add: shop_def)
  show ?thesis
    using product qty row other by (simp add: delivered)
qed

subsection \<open>C3: the line printed\<close>

text \<open>
  Claim C3. A delivery for an Order whose Product can be read returns and has added
  exactly one line to the output,
  \<^verbatim>\<open>Quantity updated for {name}. New quantity: {quantity}\<close>, with the name of the order's
  Product and its quantity after the decrement. For the Widget (stock 100, 3 ordered)
  the stock is 97 and the line reads \<^verbatim>\<open>Quantity updated for Widget. New quantity: 97\<close>.
\<close>

theorem confirmation_prints_line:
  assumes product: "Order_get_product sender w = (Inr p, w1)"
    and slot: "Product_pk (product_objs w1 p) = None \<longrightarrow>
                 products_table w (Suc (products_seq w)) = None"
  shows "\<exists>w'. update_quantity_on_order_confirmation sender w = (Inr (), w') \<and>
         stdout w' = stdout w @
           [''Quantity updated for '' @ Product_name (product_objs w' p) @
            ''. New quantity: '' @ show_int (Product_quantity (product_objs w' p))] \<and>
         Product_name (product_objs w' p) = Product_name (product_objs w1 p) \<and>
         Product_quantity (product_objs w' p) =
           Product_quantity (product_objs w1 p) - Order_quantity (order_objs w sender)"
proof -
  from receiver_returns [OF product slot] obtain w' where
    delivered: "update_quantity_on_order_confirmation sender w = (Inr (), w')"
    by blast
  from receiver_delivered [OF product delivered] obtain k where
    objs: "product_objs w' = (product_objs w1)
       (p := (product_objs w1 p)\<lparr>Product_quantity :=
          Product_quantity (product_objs w1 p) - Order_quantity (order_objs w1 sender),
          Product_pk := Some k\<rparr>)"
    and out: "stdout w' = stdout w1 @
       [''Quantity updated for '' @ Product_name (product_objs w1 p) @
        ''. New quantity: '' @
        show_int (Product_quantity (product_objs w1 p) - Order_quantity (order_objs w1 sender))]"
    by blast
  have qty: "Order_quantity (order_objs w1 sender) = Order_quantity (order_objs w sender)"
    using get_product_fields [OF product] by simp
  have "stdout w1 = stdout w"
    using get_product_tables [OF product] by simp
  then show ?thesis
    by (intro exI [of _ w']) (simp add: delivered objs out qty)
qed

theorem confirmation_prints_line_witness:
  "Order_get_product 0 shop = (Inr 0, shop) \<and>
   fst (update_quantity_on_order_confirmation 0 shop) = Inr () \<and>
   Product_quantity (product_objs (snd (update_quantity_on_order_confirmation 0 shop)) 0) = 97 \<and>
   stdout (snd (update_quantity_on_order_confirmation 0 shop)) =
     [''Quantity updated for Widget. New quantity: 97'']"
proof -
  have product: "Order_get_product 0 shop = (Inr 0, shop)"
    by (simp add: Order_get_product_def scenario)
  have slot: "Product_pk (product_objs shop 0) = None \<longrightarrow>
      products_table shop (Suc (products_seq shop)) = None"
    by (simp add: scenario)
  from confirmation_prints_line [OF product slot] obtain w' where
    delivered: "update_quantity_on_order_confirmation 0 shop = (Inr (), w')"
    and line: "stdout w' = stdout shop @
      [''Quantity updated for '' @ Product_name (product_objs w' 0) @
       ''. New quantity: '' @ show_int (Product_quantity (product_objs w' 0))]"
    and name': "Product_name (product_objs w' 0) = Product_name (product_objs shop 0)"
    and qty': "Product_quantity (product_objs w' 0) =
      Product_quantity (product_objs shop 0) - Order_quantity (order_objs shop 0)"
    by blast
  have qty: "Product_quantity (product_objs w' 0) = 97"
    and name: "Product_name (product_objs w' 0) = ''Widget''"
    using qty' name' by (simp_all add: scenario)
  have "stdout w' = stdout shop @
      [''Quantity updated for '' @ ''Widget'' @ ''. New quantity: '' @ show_int 97]"
    using line unfolding qty name by blast
  then have "stdout w' = [''Quantity updated for Widget. New quantity: 97'']"
    by (simp add: shop_def show_int_def show_nat.simps)
  then show ?thesis
    using product qty by (simp add: delivered)
qed

subsection \<open>C4: the receiver is not idempotent\<close>

text \<open>
  Claim C4. Two deliveries of the same notification both return, and the second has
  decremented again: the Product's quantity, in memory and in its row, is down by twice
  the quantity of the Order. Nothing records that the Order was processed. The Widget's
  stock goes from 100 to 94.
\<close>

theorem confirmation_twice_decrements_twice:
  assumes product: "Order_get_product sender w = (Inr p, w1)"
    and slot: "Product_pk (product_objs w1 p) = None \<longrightarrow>
                 products_table w (Suc (products_seq w)) = None"
  shows "\<exists>w' w'' k. update_quantity_on_order_confirmation sender w = (Inr (), w') \<and>
           update_quantity_on_order_confirmation sender w' = (Inr (), w'') \<and>
           Product_quantity (product_objs w'' p) =
             Product_quantity (product_objs w1 p) - 2 * Order_quantity (order_objs w sender) \<and>
           Product_pk (product_objs w'' p) = Some k \<and>
           products_table w'' k = Some (product_objs w'' p)"
proof -
  from receiver_returns [OF product slot] obtain w' where
    first: "update_quantity_on_order_confirmation sender w = (Inr (), w')"
    by blast
  from receiver_delivered [OF product first] obtain k where
    objs: "product_objs w' = (product_objs w1)
       (p := (product_objs w1 p)\<lparr>Product_quantity :=
          Product_quantity (product_objs w1 p) - Order_quantity (order_objs w1 sender),
          Product_pk := Some k\<rparr>)"
    and ords: "order_objs w' = order_objs w1"
    by blast
  have qty: "Order_quantity (order_objs w1 sender) = Order_quantity (order_objs w sender)"
    using get_product_fields [OF product] by simp
  have "Order_product_cache (order_objs w' sender) = Some p"
    using get_product_cache [OF product] by (simp add: ords)
  then have again: "Order_get_product sender w' = (Inr p, w')"
    by (simp add: Order_get_product_def)
  have key: "Product_pk (product_objs w' p) = Some k"
    by (simp add: objs)
  have "update_quantity_on_order_confirmation sender w' =
      (Inr (), snd (update_quantity_on_order_confirmation sender w'))"
    unfolding receiver_saved [OF again key] by simp
  moreover have "Product_quantity
      (product_objs (snd (update_quantity_on_order_confirmation sender w')) p) =
      Product_quantity (product_objs w1 p) - 2 * Order_quantity (order_objs w sender)"
    unfolding receiver_saved [OF again key] by (simp add: objs ords qty)
  moreover have "Product_pk
      (product_objs (snd (update_quantity_on_order_confirmation sender w')) p) = Some k"
    unfolding receiver_saved [OF again key] by (simp add: objs)
  moreover have "products_table (snd (update_quantity_on_order_confirmation sender w')) k =
      Some (product_objs (snd (update_quantity_on_order_confirmation sender w')) p)"
    unfolding receiver_saved [OF again key] by (simp add: objs)
  ultimately show ?thesis
    using first by blast
qed

theorem confirmation_twice_decrements_twice_witness:
  "Order_get_product 0 shop = (Inr 0, shop) \<and>
   (\<exists>w' w'' k. update_quantity_on_order_confirmation 0 shop = (Inr (), w') \<and>
      update_quantity_on_order_confirmation 0 w' = (Inr (), w'') \<and>
      Product_quantity (product_objs w'' 0) = 94 \<and>
      Product_pk (product_objs w'' 0) = Some k \<and>
      products_table w'' k = Some (product_objs w'' 0)) \<and>
   Product_quantity (product_objs (snd (update_quantity_on_order_confirmation 0
      (snd (update_quantity_on_order_confirmation 0 shop)))) 0) = 94"
proof -
  have product: "Order_get_product 0 shop = (Inr 0, shop)"
    by (simp add: Order_get_product_def scenario)
  have slot: "Product_pk (product_objs shop 0) = None \<longrightarrow>
      products_table shop (Suc (products_seq shop)) = None"
    by (simp add: scenario)
  have twice: "Product_quantity (product_objs shop 0) - 2 * Order_quantity (order_objs shop 0) = 94"
    by (simp add: scenario)
  note fact = confirmation_twice_decrements_twice [OF product slot, unfolded twice]
  from fact obtain w' w'' where
    "update_quantity_on_order_confirmation 0 shop = (Inr (), w')"
    "update_quantity_on_order_confirmation 0 w' = (Inr (), w'')"
    "Product_quantity (product_objs w'' 0) = 94"
    by blast
  then have "Product_quantity (product_objs (snd (update_quantity_on_order_confirmation 0
      (snd (update_quantity_on_order_confirmation 0 shop)))) 0) = 94"
    by simp
  then show ?thesis
    using product fact by blast
qed

subsection \<open>C5: other products are left alone\<close>

text \<open>
  Claim C5. Whatever the outcome of a delivery for an Order of Product \<open>p\<close>, the row of
  every Product with another key and every other Product instance is what it was, in
  all its fields.
\<close>

theorem confirmation_leaves_other_products:
  assumes product: "Order_get_product sender w = (Inr p, w1)"
    and delivered: "update_quantity_on_order_confirmation sender w = (res, w')"
  shows "(\<forall>k. Product_pk (product_objs w' p) \<noteq> Some k \<longrightarrow>
              products_table w' k = products_table w k) \<and>
         (\<forall>q. q \<noteq> p \<longrightarrow> product_objs w' q = product_objs w q)"
proof -
  have tab: "products_table w1 = products_table w"
    using get_product_tables [OF product] by simp
  note inst = get_product_instances [OF product]
  show ?thesis
  proof (cases "Product_pk (product_objs w1 p)")
    case (Some k)
    show ?thesis
      using delivered inst unfolding receiver_saved [OF product Some]
      by (auto simp: tab Some)
  next
    case None
    show ?thesis
    proof (cases "products_table w1 (Suc (products_seq w1))")
      case (Some row)
      show ?thesis
        using delivered inst unfolding receiver_collision [OF product None Some]
        by (auto simp: tab)
    next
      case free: None
      show ?thesis
        using delivered inst unfolding receiver_unsaved [OF product None free]
        by (auto simp: tab)
    qed
  qed
qed

theorem confirmation_leaves_other_products_witness:
  "Order_get_product 0 shop = (Inr 0, shop) \<and>
   products_table (snd (update_quantity_on_order_confirmation 0 shop)) 2 = Some Gadget \<and>
   product_objs (snd (update_quantity_on_order_confirmation 0 shop)) 1 = Gadget"
proof -
  let ?w' = "snd (update_quantity_on_order_confirmation 0 shop)"
  have product: "Order_get_product 0 shop = (Inr 0, shop)"
    by (simp add: Order_get_product_def scenario)
  have delivered: "update_quantity_on_order_confirmation 0 shop =
      (fst (update_quantity_on_order_confirmation 0 shop), ?w')"
    by simp
  note fact = confirmation_leaves_other_products [OF product delivered]
  have key: "Product_pk (product_objs ?w' 0) \<noteq> Some 2"
    by (simp add: recv scenario)
  have "products_table ?w' 2 = products_table shop 2"
    using fact key by blast
  moreover have "product_objs ?w' 1 = product_objs shop 1"
    using fact by simp
  ultimately show ?thesis
    using product by (simp add: shop_def)
qed

subsection \<open>C6: the decrement is not guarded against underflow\<close>

text \<open>
  Claim C6. When the Order asks for more than the Product has, the delivery still
  returns, and the quantity it has stored in the Product's row is the negative
  difference: the receiver neither rejects nor clamps. (The only failure after the
  product is read is an insertion under a key already taken, which the second
  hypothesis excludes for a Product never saved.) This rests on \<open>Product_save\<close>, which
  stores the row with no constraint on the quantity.
\<close>

theorem confirmation_unguarded_underflow:
  assumes product: "Order_get_product sender w = (Inr p, w1)"
    and slot: "Product_pk (product_objs w1 p) = None \<longrightarrow>
                 products_table w (Suc (products_seq w)) = None"
    and short: "Product_quantity (product_objs w1 p) < Order_quantity (order_objs w sender)"
  shows "\<exists>w' k row. update_quantity_on_order_confirmation sender w = (Inr (), w') \<and>
           Product_pk (product_objs w' p) = Some k \<and>
           products_table w' k = Some row \<and>
           Product_quantity row =
             Product_quantity (product_objs w1 p) - Order_quantity (order_objs w sender) \<and>
           Product_quantity row < 0 \<and>
           Product_quantity (product_objs w' p) < 0"
proof -
  have qty: "Order_quantity (order_objs w1 sender) = Order_quantity (order_objs w sender)"
    using get_product_fields [OF product] by simp
  have tab: "products_table w1 = products_table w" "products_seq w1 = products_seq w"
    using get_product_tables [OF product] by simp_all
  show ?thesis
  proof (cases "Product_pk (product_objs w1 p)")
    case (Some k)
    show ?thesis
      unfolding receiver_saved [OF product Some] using short by (simp add: qty Some)
  next
    case None
    with slot have free: "products_table w1 (Suc (products_seq w1)) = None"
      by (simp add: tab)
    show ?thesis
      unfolding receiver_unsaved [OF product None free] using short by (simp add: qty)
  qed
qed

theorem confirmation_unguarded_underflow_witness:
  "Product_quantity (product_objs (snd (Order_get_product 1 shop)) 2) = 100 \<and>
   Order_quantity (order_objs shop 1) = 150 \<and>
   (\<exists>w' k row. update_quantity_on_order_confirmation 1 shop = (Inr (), w') \<and>
      Product_pk (product_objs w' 2) = Some k \<and>
      products_table w' k = Some row \<and>
      Product_quantity row = - 50 \<and>
      Product_quantity (product_objs w' 2) < 0)"
proof -
  let ?w1 = "snd (Order_get_product 1 shop)"
  have "fst (Order_get_product 1 shop) = Inr 2"
    by (simp add: Order_get_product_def Let_def scenario)
  then have product: "Order_get_product 1 shop = (Inr 2, ?w1)"
    by (cases "Order_get_product 1 shop") simp
  have stock: "Product_quantity (product_objs ?w1 2) = 100"
    by (simp add: Order_get_product_def Let_def scenario)
  have asked: "Order_quantity (order_objs shop 1) = 150"
    by (simp add: scenario)
  have slot: "Product_pk (product_objs ?w1 2) = None \<longrightarrow>
      products_table shop (Suc (products_seq shop)) = None"
    by (simp add: Order_get_product_def Let_def scenario)
  have short: "Product_quantity (product_objs ?w1 2) < Order_quantity (order_objs shop 1)"
    unfolding stock asked by simp
  show ?thesis
    using confirmation_unguarded_underflow [OF product slot short] stock asked
    by auto
qed

subsection \<open>C7: a quantity of zero is accepted\<close>

text \<open>
  Claim C7. An Order of quantity zero for a Product that is in the table is accepted by
  \<^verbatim>\<open>save\<close>: the constraint of \<^verbatim>\<open>PositiveIntegerField\<close> is \<^verbatim>\<open>quantity >= 0\<close>. Its
  \<^verbatim>\<open>total_price\<close> is then 0, on the instance and in the row. (A negative quantity is
  refused: \<open>save_rejects_negative_quantity\<close>.)
\<close>

theorem save_accepts_zero_quantity:
  assumes product: "Order_get_product self w = (Inr p, w1)"
    and key: "Product_pk (product_objs w1 p) = Some k"
    and ref: "Order_product_id (order_objs w self) = None \<or>
              Order_product_id (order_objs w self) = Some k"
    and row: "products_table w k \<noteq> None"
    and slot: "Order_pk (order_objs w self) = None \<longrightarrow>
                 orders_table w (Suc (orders_seq w)) = None"
    and zero: "Order_quantity (order_objs w self) = 0"
  shows "\<exists>w' n row. Order_save self w = (Inr (), w') \<and>
           Order_total_price (order_objs w' self) = Some 0 \<and>
           Order_pk (order_objs w' self) = Some n \<and>
           orders_table w' n = Some row \<and>
           Order_quantity row = 0 \<and> Order_total_price row = Some 0"
proof -
  let ?w2 = "w1\<lparr>order_objs := (order_objs w1)
          (self := (order_objs w1 self)\<lparr>Order_total_price :=
             Some (Product_price (product_objs w1 p) * Order_quantity (order_objs w1 self))\<rparr>)\<rparr>"
  note f = get_product_fields [OF product, of self]
  note t = get_product_tables [OF product]
  have "fst (Model_save_Order self ?w2) = Inr ()"
    using get_product_cache [OF product] key ref row slot zero f t
    by (intro model_save_accepts [where p = p and k = k])
       (simp_all add: fits_total_price_def)
  then obtain w' where run: "Model_save_Order self ?w2 = (Inr (), w')"
    by (cases "Model_save_Order self ?w2") simp
  then have saved: "Order_save self w = (Inr (), w')"
    using save_unfold [OF product] by simp
  have total: "Order_total_price (order_objs w' self) = Some 0"
    and qty: "Order_quantity (order_objs w' self) = 0"
    using model_save_fields [OF run] zero f by simp_all
  from model_save_row [OF run] obtain n where
    "Order_pk (order_objs w' self) = Some n"
    "orders_table w' n = Some ((order_objs w' self)\<lparr>Order_product_cache := None\<rparr>)"
    by blast
  then show ?thesis
    using saved total qty by simp
qed

theorem save_accepts_zero_quantity_witness:
  "Order_quantity (order_objs shop 2) = 0 \<and>
   (\<exists>w' n row. Order_save 2 shop = (Inr (), w') \<and>
      Order_total_price (order_objs w' 2) = Some 0 \<and>
      Order_pk (order_objs w' 2) = Some n \<and>
      orders_table w' n = Some row \<and>
      Order_quantity row = 0 \<and> Order_total_price row = Some 0)"
proof -
  have product: "Order_get_product 2 shop = (Inr 0, shop)"
    by (simp add: Order_get_product_def scenario)
  have key: "Product_pk (product_objs shop 0) = Some 1"
    and ref: "Order_product_id (order_objs shop 2) = None \<or>
              Order_product_id (order_objs shop 2) = Some 1"
    and row: "products_table shop 1 \<noteq> None"
    and slot: "Order_pk (order_objs shop 2) = None \<longrightarrow>
                 orders_table shop (Suc (orders_seq shop)) = None"
    and zero: "Order_quantity (order_objs shop 2) = 0"
    by (simp_all add: scenario)
  show ?thesis
    using save_accepts_zero_quantity [OF product key ref row slot zero] zero
    by simp
qed

subsection \<open>C8: saving an Order whose Product is missing\<close>

text \<open>
  Claim C8. When the Product of an Order is missing, \<^verbatim>\<open>save\<close> raises: the outcome is an
  exception, handed to the caller as it is. Both tables and both key sequences are what
  they were before the call, so nothing was stored.
\<close>

theorem save_fails_on_missing_product:
  assumes missing: "product_missing self w"
    and saved: "Order_save self w = (res, w')"
  shows "(\<exists>e. res = Inl e) \<and>
         orders_table w' = orders_table w \<and> orders_seq w' = orders_seq w \<and>
         products_table w' = products_table w \<and> products_seq w' = products_seq w"
proof -
  have "\<exists>e. res = Inl e"
    using missing saved
    by (auto simp: Order_save_def Order_get_product_def Model_save_Order_def prepare_related_def
        product_missing_def Let_def split: option.splits if_splits)
  then show ?thesis
    using saved save_storage_on_error by blast
qed

theorem save_fails_on_missing_product_witness:
  "product_missing 3 shop \<and>
   fst (Order_save 3 shop) = Inl DoesNotExist \<and>
   orders_table (snd (Order_save 3 shop)) = orders_table shop \<and>
   orders_seq (snd (Order_save 3 shop)) = orders_seq shop \<and>
   products_table (snd (Order_save 3 shop)) = products_table shop \<and>
   products_seq (snd (Order_save 3 shop)) = products_seq shop"
proof -
  have missing: "product_missing 3 shop"
    by (simp add: product_missing_def scenario)
  have saved: "Order_save 3 shop = (fst (Order_save 3 shop), snd (Order_save 3 shop))"
    by simp
  have raised: "fst (Order_save 3 shop) = Inl DoesNotExist"
    by (simp add: Order_save_def Order_get_product_def scenario)
  show ?thesis
    using save_fails_on_missing_product [OF missing saved] missing raised
    by simp
qed

subsection \<open>C9: the receiver leaves the Order alone\<close>

text \<open>
  Claim C9. Whatever the outcome of a delivery, the orders table and its key sequence
  are unchanged (the Order is not saved again), and the sender has the same key, the
  same \<^verbatim>\<open>product_id\<close>, \<^verbatim>\<open>quantity\<close>, \<^verbatim>\<open>total_price\<close> and \<^verbatim>\<open>confirmed\<close>. Reading
  \<^verbatim>\<open>sender.product\<close> may fill the sender's cache of the related instance when it was
  empty; it never replaces a cached instance. Every other Order instance is unchanged.
\<close>

theorem confirmation_leaves_order:
  assumes delivered: "update_quantity_on_order_confirmation sender w = (res, w')"
  shows "orders_table w' = orders_table w \<and> orders_seq w' = orders_seq w \<and>
         Order_pk (order_objs w' sender) = Order_pk (order_objs w sender) \<and>
         Order_product_id (order_objs w' sender) = Order_product_id (order_objs w sender) \<and>
         Order_quantity (order_objs w' sender) = Order_quantity (order_objs w sender) \<and>
         Order_total_price (order_objs w' sender) = Order_total_price (order_objs w sender) \<and>
         Order_confirmed (order_objs w' sender) = Order_confirmed (order_objs w sender) \<and>
         (Order_product_cache (order_objs w' sender) = Order_product_cache (order_objs w sender) \<or>
          Order_product_cache (order_objs w sender) = None) \<and>
         (\<forall>s. s \<noteq> sender \<longrightarrow> order_objs w' s = order_objs w s)"
proof -
  obtain r w1 where product: "Order_get_product sender w = (r, w1)"
    by (cases "Order_get_product sender w") blast
  note same = receiver_orders [OF product delivered]
  show ?thesis
    using get_product_fields [OF product, of sender] get_product_others [OF product]
      get_product_cache_kept [OF product]
    by (simp add: same)
qed

theorem confirmation_leaves_order_witness:
  "orders_table (snd (update_quantity_on_order_confirmation 1 shop)) = orders_table shop \<and>
   Order_product_id (order_objs (snd (update_quantity_on_order_confirmation 1 shop)) 1) = Some 1 \<and>
   Order_quantity (order_objs (snd (update_quantity_on_order_confirmation 1 shop)) 1) = 150 \<and>
   Order_total_price (order_objs (snd (update_quantity_on_order_confirmation 1 shop)) 1) = None \<and>
   Order_confirmed (order_objs (snd (update_quantity_on_order_confirmation 1 shop)) 1) = False \<and>
   order_objs (snd (update_quantity_on_order_confirmation 1 shop)) 0 = Widget_order"
proof -
  let ?w' = "snd (update_quantity_on_order_confirmation 1 shop)"
  have delivered: "update_quantity_on_order_confirmation 1 shop =
      (fst (update_quantity_on_order_confirmation 1 shop), ?w')"
    by simp
  note fact = confirmation_leaves_order [OF delivered]
  have "order_objs ?w' 0 = order_objs shop 0"
    using fact by simp
  then show ?thesis
    using fact by (simp add: scenario)
qed

subsection \<open>C10: the receiver does not look at \<^verbatim>\<open>confirmed\<close>\<close>

text \<open>
  Claim C10. Setting the sender's \<^verbatim>\<open>confirmed\<close> flag to any value before the delivery
  changes neither the outcome nor the world that results, apart from the flag itself:
  the same decrement is made, the same row stored and the same line printed.
\<close>

theorem confirmation_ignores_confirmed_flag:
  "fst (update_quantity_on_order_confirmation sender (set_confirmed sender b w)) =
     fst (update_quantity_on_order_confirmation sender w) \<and>
   snd (update_quantity_on_order_confirmation sender (set_confirmed sender b w)) =
     set_confirmed sender b (snd (update_quantity_on_order_confirmation sender w))"
  by (auto simp: update_quantity_on_order_confirmation_def Order_get_product_def
      Product_save_def set_confirmed_def confirmed_after_cache Let_def split: option.splits)

theorem confirmation_ignores_confirmed_flag_witness:
  "fst (update_quantity_on_order_confirmation 0 (set_confirmed 0 True shop)) = Inr () \<and>
   products_table (snd (update_quantity_on_order_confirmation 0 (set_confirmed 0 True shop))) =
     products_table (snd (update_quantity_on_order_confirmation 0 shop)) \<and>
   stdout (snd (update_quantity_on_order_confirmation 0 (set_confirmed 0 True shop))) =
     stdout (snd (update_quantity_on_order_confirmation 0 shop))"
proof -
  have ok: "fst (update_quantity_on_order_confirmation 0 shop) = Inr ()"
    by (simp add: recv scenario)
  show ?thesis
    using confirmation_ignores_confirmed_flag [of 0 True shop] ok
    by (simp add: set_confirmed_def)
qed

end
